theory Spec2Isabelle
  imports Complex_Main "HOL-Library.Char_ord" "HOL-Library.Sublist"
begin

section \<open>Strings of the platform\<close>

text \<open>
  The scanner of \<^verbatim>\<open>src/components/UrlScanner.tsx\<close> works on JavaScript strings: sequences
  of UTF-16 code units, whose \<^verbatim>\<open>length\<close> counts code units. A code unit is kept as its two
  bytes, the high one first, so that \<open>CU (CHR 0x04) (CHR 0x30)\<close> is the code unit 0x0430.
  The scanner compares code units and tests them against ranges; it does no arithmetic
  on them. \<open>code\<close> is the number of a code unit, and \<open>le_cu\<close> the order of these numbers.
  A string literal of the source that is plain ASCII is written \<open>js ''...''\<close>; the
  pictographs in front of the threat messages are given by their code units.
\<close>

datatype cu = CU char char

type_synonym jsstring = "cu list"

fun code :: "cu \<Rightarrow> nat" where
  "code (CU h l) = 256 * of_char h + of_char l"

fun le_cu :: "cu \<Rightarrow> cu \<Rightarrow> bool" where
  "le_cu (CU a b) (CU c d) = (a < c \<or> (a = c \<and> b \<le> d))"

definition between :: "cu \<Rightarrow> cu \<Rightarrow> cu \<Rightarrow> bool" where
  "between lo hi c = (le_cu lo c \<and> le_cu c hi)"

definition ascii :: "char \<Rightarrow> cu" where
  "ascii c = CU (CHR 0x00) c"

definition js :: "string \<Rightarrow> jsstring" where
  "js s = map ascii s"

text \<open>\<^verbatim>\<open>String.prototype.startsWith\<close>, \<^verbatim>\<open>endsWith\<close> and \<^verbatim>\<open>includes\<close>.\<close>

fun startsWith :: "jsstring \<Rightarrow> jsstring \<Rightarrow> bool" where
  "startsWith s [] = True"
| "startsWith [] (p # ps) = False"
| "startsWith (c # cs) (p # ps) = (c = p \<and> startsWith cs ps)"

definition endsWith :: "jsstring \<Rightarrow> jsstring \<Rightarrow> bool" where
  "endsWith s p = startsWith (rev s) (rev p)"

fun includes_str :: "jsstring \<Rightarrow> jsstring \<Rightarrow> bool" where
  "includes_str [] sub = (sub = [])"
| "includes_str (c # cs) sub = (startsWith (c # cs) sub \<or> includes_str cs sub)"

text \<open>
  \<^verbatim>\<open>String.prototype.trim\<close> removes the code units of WhiteSpace and LineTerminator from
  both ends: U+0009 to U+000D, U+0020, U+00A0, U+1680, U+2000 to U+200A, U+2028, U+2029,
  U+202F, U+205F, U+3000 and U+FEFF.
\<close>

definition isWhiteSpace :: "cu \<Rightarrow> bool" where
  "isWhiteSpace c =
     (between (CU (CHR 0x00) (CHR 0x09)) (CU (CHR 0x00) (CHR 0x0D)) c
      \<or> c = CU (CHR 0x00) (CHR 0x20) \<or> c = CU (CHR 0x00) (CHR 0xA0)
      \<or> c = CU (CHR 0x16) (CHR 0x80)
      \<or> between (CU (CHR 0x20) (CHR 0x00)) (CU (CHR 0x20) (CHR 0x0A)) c
      \<or> c = CU (CHR 0x20) (CHR 0x28) \<or> c = CU (CHR 0x20) (CHR 0x29)
      \<or> c = CU (CHR 0x20) (CHR 0x2F) \<or> c = CU (CHR 0x20) (CHR 0x5F)
      \<or> c = CU (CHR 0x30) (CHR 0x00) \<or> c = CU (CHR 0xFE) (CHR 0xFF))"

definition trim :: "jsstring \<Rightarrow> jsstring" where
  "trim s = rev (dropWhile isWhiteSpace (rev (dropWhile isWhiteSpace s)))"

text \<open>\<^verbatim>\<open>Array.prototype.join\<close> on an array of strings.\<close>

fun join :: "jsstring \<Rightarrow> jsstring list \<Rightarrow> jsstring" where
  "join sep [] = []"
| "join sep [x] = x"
| "join sep (x # y # ys) = x @ sep @ join sep (y # ys)"

text \<open>The decimal text of a non-negative integer, as a template literal prints it.\<close>

definition digit :: "nat \<Rightarrow> cu" where
  "digit d = ascii (''0123456789'' ! d)"

function toString :: "nat \<Rightarrow> jsstring" where
  "toString n = (if n < 10 then [digit n] else toString (n div 10) @ [digit (n mod 10)])"
  by pat_completeness auto
termination
  by (relation "measure (\<lambda>n. n)") auto

declare toString.simps [simp del]

text \<open>
  Case mapping of the ASCII letters: the lower-case letter is the upper-case one with
  bit 5 set.
\<close>

fun lower_char :: "char \<Rightarrow> char" where
  "lower_char (Char b0 b1 b2 b3 b4 b5 b6 b7) =
     (if CHR ''A'' \<le> Char b0 b1 b2 b3 b4 b5 b6 b7 \<and> Char b0 b1 b2 b3 b4 b5 b6 b7 \<le> CHR ''Z''
      then Char b0 b1 b2 b3 b4 True b6 b7 else Char b0 b1 b2 b3 b4 b5 b6 b7)"

fun upper_char :: "char \<Rightarrow> char" where
  "upper_char (Char b0 b1 b2 b3 b4 b5 b6 b7) =
     (if CHR ''a'' \<le> Char b0 b1 b2 b3 b4 b5 b6 b7 \<and> Char b0 b1 b2 b3 b4 b5 b6 b7 \<le> CHR ''z''
      then Char b0 b1 b2 b3 b4 False b6 b7 else Char b0 b1 b2 b3 b4 b5 b6 b7)"

fun ascii_lower :: "cu \<Rightarrow> cu" where
  "ascii_lower (CU h l) = (if h = CHR 0x00 then CU h (lower_char l) else CU h l)"

fun ascii_upper :: "cu \<Rightarrow> cu" where
  "ascii_upper (CU h l) = (if h = CHR 0x00 then CU h (upper_char l) else CU h l)"

section \<open>Regular expressions\<close>

text \<open>
  The regular expression literals of the source use literal characters, character
  classes, the dot, alternation, sequence, the anchors and greedy repetition of one
  class (\<^verbatim>\<open>.*\<close>, \<^verbatim>\<open>\d+\<close>, \<^verbatim>\<open>[a-z]{2,}\<close>). \<open>Rep k n\<close> is the class \<open>k\<close> repeated \<open>n\<close> times or
  more.
\<close>

datatype cclass = Ranges "(cu \<times> cu) list" | Dot

datatype regex =
    Chr cu
  | Cls cclass
  | Seq regex regex
  | Alt regex regex
  | Eps
  | Rep cclass nat
  | Bol
  | Eol

record RegExp =
  source :: regex
  ignoreCase :: bool

text \<open>
  Without the \<^verbatim>\<open>u\<close> flag the matcher compares code units. Under the \<^verbatim>\<open>i\<close> flag two code
  units match when they canonicalize to the same one; canonicalization never maps a code
  unit from outside ASCII into ASCII, so for the ASCII patterns and classes that carry
  the flag in the source it is the ASCII upper-casing. The dot matches every code unit
  but the line terminators.
\<close>

definition canon :: "bool \<Rightarrow> cu \<Rightarrow> cu" where
  "canon ic c = (if ic then ascii_upper c else c)"

definition in_ranges :: "(cu \<times> cu) list \<Rightarrow> cu \<Rightarrow> bool" where
  "in_ranges rs c = list_ex (\<lambda>(lo, hi). between lo hi c) rs"

fun in_class :: "bool \<Rightarrow> cclass \<Rightarrow> cu \<Rightarrow> bool" where
  "in_class ic (Ranges rs) c =
     (in_ranges rs c \<or> (ic \<and> (in_ranges rs (ascii_upper c) \<or> in_ranges rs (ascii_lower c))))"
| "in_class ic Dot c =
     (\<not> (c = CU (CHR 0x00) (CHR 0x0A) \<or> c = CU (CHR 0x00) (CHR 0x0D)
         \<or> c = CU (CHR 0x20) (CHR 0x28) \<or> c = CU (CHR 0x20) (CHR 0x29)))"

text \<open>
  A position of the matcher is the rest of the input together with the flag "nothing has
  been read yet" (for \<^verbatim>\<open>^\<close>). \<open>rmatch\<close> returns the positions at which a match of the
  expression that starts at the given position can end, in the order in which the
  backtracking matcher tries them (first alternative first, longest repetition first).
\<close>

fun rep :: "bool \<Rightarrow> cclass \<Rightarrow> nat \<Rightarrow> bool \<Rightarrow> jsstring \<Rightarrow> (bool \<times> jsstring) list" where
  "rep ic k n b [] = (if n = 0 then [(b, [])] else [])"
| "rep ic k n b (x # xs) =
     (if in_class ic k x then rep ic k (n - 1) False xs else [])
     @ (if n = 0 then [(b, x # xs)] else [])"

fun rmatch :: "bool \<Rightarrow> regex \<Rightarrow> bool \<times> jsstring \<Rightarrow> (bool \<times> jsstring) list" where
  "rmatch ic (Chr c) (b, s) =
     (case s of [] \<Rightarrow> [] | x # xs \<Rightarrow> if canon ic x = canon ic c then [(False, xs)] else [])"
| "rmatch ic (Cls k) (b, s) =
     (case s of [] \<Rightarrow> [] | x # xs \<Rightarrow> if in_class ic k x then [(False, xs)] else [])"
| "rmatch ic (Seq r1 r2) p = concat (map (rmatch ic r2) (rmatch ic r1 p))"
| "rmatch ic (Alt r1 r2) p = rmatch ic r1 p @ rmatch ic r2 p"
| "rmatch ic Eps p = [p]"
| "rmatch ic (Rep k n) (b, s) = rep ic k n b s"
| "rmatch ic Bol (b, s) = (if b then [(b, s)] else [])"
| "rmatch ic Eol (b, s) = (if s = [] then [(b, s)] else [])"

text \<open>
  \<^verbatim>\<open>RegExp.prototype.test\<close> on a freshly created expression (\<^verbatim>\<open>lastIndex\<close> is 0, so the
  \<^verbatim>\<open>g\<close> flag of the homograph patterns changes nothing): is there a match starting
  anywhere in the input?
\<close>

fun search :: "bool \<Rightarrow> regex \<Rightarrow> bool \<Rightarrow> jsstring \<Rightarrow> bool" where
  "search ic r b [] = (rmatch ic r (b, []) \<noteq> [])"
| "search ic r b (x # xs) = (rmatch ic r (b, x # xs) \<noteq> [] \<or> search ic r False xs)"

definition test :: "RegExp \<Rightarrow> jsstring \<Rightarrow> bool" where
  "test re s = search (ignoreCase re) (source re) True s"

text \<open>
  The number of matches \<^verbatim>\<open>(s.match(re) || []).length\<close> of an expression with the \<^verbatim>\<open>g\<close>
  flag: the leftmost match is taken, the scan goes on where it ended, or one code unit
  later after an empty match.
\<close>

function matchCount :: "bool \<Rightarrow> regex \<Rightarrow> bool \<Rightarrow> jsstring \<Rightarrow> nat" where
  "matchCount ic r b s =
     (case rmatch ic r (b, s) of
        [] \<Rightarrow> (case s of [] \<Rightarrow> 0 | x # xs \<Rightarrow> matchCount ic r False xs)
      | (b', s') # rest \<Rightarrow>
          Suc (if length s' < length s then matchCount ic r False s'
               else (case s of [] \<Rightarrow> 0 | x # xs \<Rightarrow> matchCount ic r False xs)))"
  by pat_completeness auto
termination
  by (relation "measure (\<lambda>(ic, r, b, s). length s)") auto

declare matchCount.simps [simp del]

text \<open>Building expressions from the literals of the source.\<close>

definition lit :: "string \<Rightarrow> regex" where
  "lit s = foldr (\<lambda>c r. Seq (Chr (ascii c)) r) s Eps"

fun alts :: "string list \<Rightarrow> regex" where
  "alts [] = Eps"
| "alts [x] = lit x"
| "alts (x # y # ys) = Alt (lit x) (alts (y # ys))"

fun seqs :: "regex list \<Rightarrow> regex" where
  "seqs [] = Eps"
| "seqs [r] = r"
| "seqs (r # q # rs) = Seq r (seqs (q # rs))"

definition digitClass :: cclass where
  "digitClass = Ranges [(ascii (CHR ''0''), ascii (CHR ''9''))]"

definition lowerClass :: cclass where
  "lowerClass = Ranges [(ascii (CHR ''a''), ascii (CHR ''z''))]"

section \<open>The platform\<close>

text \<open>
  \<open>analyzeUrl\<close> calls into the JavaScript platform: the \<^verbatim>\<open>URL\<close> constructor, which throws
  on an input that does not parse (\<open>None\<close>) and of whose result the scanner reads
  \<^verbatim>\<open>hostname\<close> and \<^verbatim>\<open>pathname\<close>; the Unicode case mappings of strings; and
  \<^verbatim>\<open>Math.random\<close>, of which \<open>random P k\<close> is the value of the \<open>k\<close>-th call of one scan.
  The scanner is modelled over an arbitrary platform.
\<close>

record URL =
  hostname :: jsstring
  pathname :: jsstring

record platform =
  new_URL :: "jsstring \<Rightarrow> URL option"
  toLowerCase :: "jsstring \<Rightarrow> jsstring"
  toUpperCase :: "jsstring \<Rightarrow> jsstring"
  random :: "nat \<Rightarrow> real"

section \<open>The data model\<close>

datatype risk = Safe | Suspicious | Dangerous

record findings =
  threats :: "jsstring list"
  warnings :: "jsstring list"
  riskLevel :: risk
  score :: int

record details =
  domainAge :: jsstring
  ssl :: bool
  reputation :: jsstring
  typosquatting :: bool
  redirects :: int
  contentType :: jsstring
  geoLocation :: "jsstring option"
  registrar :: jsstring
  dnsRecords :: jsstring
  securityHeaders :: jsstring

record ScanResult = findings +
  url :: jsstring
  details :: details

text \<open>
  One firing of a rule: \<^verbatim>\<open>threats.push(t); warnings.push(w);\<close> an assignment to
  \<^verbatim>\<open>riskLevel\<close> and \<^verbatim>\<open>score -= p\<close>. The source has three assignments to the level.
\<close>

definition fire :: "jsstring \<Rightarrow> jsstring \<Rightarrow> (risk \<Rightarrow> risk) \<Rightarrow> int \<Rightarrow> findings \<Rightarrow> findings" where
  "fire t w lvl p s =
     s\<lparr>threats := threats s @ [t], warnings := warnings s @ [w],
       riskLevel := lvl (riskLevel s), score := score s - p\<rparr>"

definition toDangerous :: "risk \<Rightarrow> risk" where
  \<comment> \<open>\<^verbatim>\<open>riskLevel = 'dangerous'\<close>\<close>
  "toDangerous l = Dangerous"

definition toSuspicious :: "risk \<Rightarrow> risk" where
  \<comment> \<open>\<^verbatim>\<open>riskLevel = 'suspicious'\<close>\<close>
  "toSuspicious l = Suspicious"

definition escalate :: "risk \<Rightarrow> risk" where
  \<comment> \<open>\<^verbatim>\<open>riskLevel = riskLevel === 'safe' ? 'suspicious' : riskLevel\<close>\<close>
  "escalate l = (if l = Safe then Suspicious else l)"

section \<open>The rule battery\<close>

subsection \<open>1. Misspellings or character swaps in domain names\<close>

record misspelling =
  correct :: jsstring
  misspelled :: "jsstring list"

definition commonMisspellings :: "misspelling list" where
  "commonMisspellings =
    [\<lparr>correct = js ''google'', misspelled = map js [''gooogle'', ''googel'', ''gogle'', ''googl'']\<rparr>,
     \<lparr>correct = js ''facebook'', misspelled = map js [''faceb00k'', ''facebok'', ''facebook'']\<rparr>,
     \<lparr>correct = js ''paypal'', misspelled = map js [''payp4l'', ''paypaI'', ''paypaII'', ''paipal'']\<rparr>,
     \<lparr>correct = js ''amazon'', misspelled = map js [''amaz0n'', ''amazon'', ''amazone'', ''amazom'']\<rparr>,
     \<lparr>correct = js ''microsoft'', misspelled = map js [''microsooft'', ''microsft'', ''microsofy'']\<rparr>,
     \<lparr>correct = js ''apple'', misspelled = map js [''appIe'', ''appl3'', ''aple'']\<rparr>,
     \<lparr>correct = js ''netflix'', misspelled = map js [''netfIix'', ''netfl1x'', ''netflixx'']\<rparr>]"

definition misspellingThreat :: "jsstring \<Rightarrow> jsstring \<Rightarrow> jsstring" where
  "misspellingThreat m c =
     [CU (CHR 0x26) (CHR 0xA0), CU (CHR 0xFE) (CHR 0x0F)] @ js '' Possible misspelling detected: ''
     @ [CU (CHR 0x00) (CHR 0x22)] @ m @ [CU (CHR 0x00) (CHR 0x22)]
     @ js '' (looks like '' @ c @ js '')''"

definition misspellingWarning :: "jsstring \<Rightarrow> jsstring" where
  "misspellingWarning c =
     js ''This URL contains what appears to be a misspelled version of '' @ c
     @ js ''. Please double-check before proceeding.''"

definition ruleMisspelling :: "jsstring \<Rightarrow> findings \<Rightarrow> findings" where
  "ruleMisspelling domain s =
     foldl (\<lambda>s check.
        foldl (\<lambda>s m.
           if includes_str domain m
           then fire (misspellingThreat m (correct check)) (misspellingWarning (correct check))
                  toDangerous 70 s
           else s) s (misspelled check)) s commonMisspellings"

subsection \<open>2. Homograph attacks\<close>

text \<open>
  The three classes hold the Cyrillic letters U+0430 to U+044F, the 24 Greek letters
  alpha to omega without the final sigma U+03C2, and, as the pattern has no \<^verbatim>\<open>u\<close> flag,
  the surrogate code units of the mathematical bold letters U+1D41A to U+1D433.
\<close>

definition homographPatterns :: "RegExp list" where
  "homographPatterns =
    [\<lparr>source = Cls (Ranges [(CU (CHR 0x04) (CHR 0x30), CU (CHR 0x04) (CHR 0x4F))]),
       ignoreCase = False\<rparr>,
     \<lparr>source = Cls (Ranges [(CU (CHR 0x03) (CHR 0xB1), CU (CHR 0x03) (CHR 0xC1)),
                             (CU (CHR 0x03) (CHR 0xC3), CU (CHR 0x03) (CHR 0xC9))]),
       ignoreCase = False\<rparr>,
     \<lparr>source = Cls (Ranges [(CU (CHR 0xD8) (CHR 0x35), CU (CHR 0xD8) (CHR 0x35)),
                             (CU (CHR 0xDC) (CHR 0x1A), CU (CHR 0xDC) (CHR 0x33))]),
       ignoreCase = False\<rparr>]"

definition homographThreat :: jsstring where
  "homographThreat =
     [CU (CHR 0xD8) (CHR 0x3D), CU (CHR 0xDD) (CHR 0x0D)]
     @ js '' Homograph attack detected: Non-Latin characters that may mimic legitimate sites''"

definition homographWarning :: jsstring where
  "homographWarning =
     js ''This URL uses characters that look similar to regular letters but aren't. This is a common trick used by scammers.''"

definition ruleHomograph :: "jsstring \<Rightarrow> findings \<Rightarrow> findings" where
  "ruleHomograph domain s =
     foldl (\<lambda>s pattern.
        if test pattern domain
        then fire homographThreat homographWarning toDangerous 80 s
        else s) s homographPatterns"

subsection \<open>3. Missing HTTPS encryption\<close>

definition httpsThreat :: jsstring where
  "httpsThreat =
     [CU (CHR 0xD8) (CHR 0x3D), CU (CHR 0xDD) (CHR 0x10)] @ js '' No HTTPS encryption detected''"

definition httpsWarning :: jsstring where
  "httpsWarning =
     js ''This site doesn't use secure HTTPS encryption. Your data could be intercepted.''"

definition ruleHttps :: "jsstring \<Rightarrow> findings \<Rightarrow> findings" where
  "ruleHttps urlToAnalyze s =
     (if \<not> startsWith urlToAnalyze (js ''https://'')
      then fire httpsThreat httpsWarning escalate 30 s
      else s)"

subsection \<open>4. Unusual subdomains masquerading as popular sites\<close>

definition suspiciousSubdomainPatterns :: "RegExp list" where
  "suspiciousSubdomainPatterns =
    [\<lparr>source = seqs [lit ''login.'',
         alts [''google'', ''facebook'', ''microsoft'', ''apple'', ''amazon'', ''paypal''],
         lit ''.com.'', Rep lowerClass 2], ignoreCase = False\<rparr>,
     \<lparr>source = seqs [lit ''secure.'', alts [''bank'', ''paypal'', ''amazon'', ''microsoft''],
         lit ''.com.'', Rep lowerClass 2], ignoreCase = False\<rparr>,
     \<lparr>source = seqs [alts [''google'', ''facebook'', ''microsoft'', ''apple'', ''amazon'', ''paypal''],
         lit ''.com.'', Rep lowerClass 2, lit ''.''], ignoreCase = False\<rparr>,
     \<lparr>source = seqs [lit ''www.'',
         alts [''google'', ''facebook'', ''microsoft'', ''apple'', ''amazon'', ''paypal''],
         lit ''-'', Rep lowerClass 1, lit ''.''], ignoreCase = False\<rparr>]"

definition subdomainThreat :: jsstring where
  "subdomainThreat =
     [CU (CHR 0xD8) (CHR 0x3C), CU (CHR 0xDF) (CHR 0x10)]
     @ js '' Suspicious subdomain structure detected''"

definition subdomainWarning :: jsstring where
  "subdomainWarning =
     js ''This URL appears to mimic a legitimate site using fake subdomains. Real companies don't structure their URLs this way.''"

definition ruleSubdomain :: "jsstring \<Rightarrow> findings \<Rightarrow> findings" where
  "ruleSubdomain domain s =
     foldl (\<lambda>s pattern.
        if test pattern domain
        then fire subdomainThreat subdomainWarning toDangerous 75 s
        else s) s suspiciousSubdomainPatterns"

subsection \<open>5. Excessive URL length with random characters\<close>

definition hexRun :: regex where
  \<comment> \<open>\<^verbatim>\<open>/[0-9a-f]{8,}/g\<close>\<close>
  "hexRun =
     Rep (Ranges [(ascii (CHR ''0''), ascii (CHR ''9'')), (ascii (CHR ''a''), ascii (CHR ''f''))]) 8"

definition lengthThreat :: "nat \<Rightarrow> jsstring" where
  "lengthThreat n =
     [CU (CHR 0xD8) (CHR 0x3E), CU (CHR 0xDD) (CHR 0xE9)]
     @ js '' Unusually long or obfuscated URL detected ('' @ toString n @ js '' characters)''"

definition lengthWarning :: jsstring where
  "lengthWarning =
     js ''This URL is unusually long and may be trying to hide its true destination.''"

definition ruleLength :: "jsstring \<Rightarrow> findings \<Rightarrow> findings" where
  "ruleLength fullUrl s =
     (if length fullUrl > 100
      then (let randomCharCount = matchCount False hexRun True fullUrl
            in if randomCharCount > 2 \<or> length fullUrl > 200
               then fire (lengthThreat (length fullUrl)) lengthWarning escalate 25 s
               else s)
      else s)"

subsection \<open>7. Open redirect patterns\<close>

definition redirectPatterns :: "RegExp list" where
  "redirectPatterns =
    [\<lparr>source = seqs [lit ''redirect'', Rep Dot 0, lit ''url=''], ignoreCase = True\<rparr>,
     \<lparr>source = seqs [lit ''goto'', Rep Dot 0, lit ''url=''], ignoreCase = True\<rparr>,
     \<lparr>source = seqs [lit ''link'', Rep Dot 0, lit ''to=''], ignoreCase = True\<rparr>,
     \<lparr>source = seqs [lit ''forward'', Rep Dot 0, lit ''to=''], ignoreCase = True\<rparr>,
     \<lparr>source = lit ''r.php?'', ignoreCase = True\<rparr>,
     \<lparr>source = lit ''go.php?'', ignoreCase = True\<rparr>]"

definition redirectThreat :: jsstring where
  "redirectThreat =
     [CU (CHR 0x26) (CHR 0xD4)] @ js '' Potential open redirect detected''"

definition redirectWarning :: jsstring where
  "redirectWarning =
     js ''This URL appears to redirect users to another site, which could be used to mask malicious destinations.''"

definition ruleRedirect :: "jsstring \<Rightarrow> findings \<Rightarrow> findings" where
  "ruleRedirect fullUrl s =
     foldl (\<lambda>s pattern.
        if test pattern fullUrl
        then fire redirectThreat redirectWarning toSuspicious 40 s
        else s) s redirectPatterns"

subsection \<open>8. Recently registered domains\<close>

definition newDomainIndicators :: "RegExp list" where
  "newDomainIndicators =
    [\<lparr>source = Rep digitClass 4, ignoreCase = False\<rparr>,
     \<lparr>source = alts [''temp'', ''test'', ''demo'', ''staging''], ignoreCase = True\<rparr>,
     \<lparr>source = alts [''new'', ''fresh'', ''latest''], ignoreCase = True\<rparr>]"

definition newDomainThreat :: jsstring where
  "newDomainThreat =
     [CU (CHR 0xD8) (CHR 0x3D), CU (CHR 0xDD) (CHR 0xD3), CU (CHR 0xFE) (CHR 0x0F)]
     @ js '' Possible recently registered domain''"

definition newDomainWarning :: jsstring where
  "newDomainWarning =
     js ''This domain shows signs of being newly registered, which is common with scam sites.''"

definition ruleNewDomain :: "jsstring \<Rightarrow> findings \<Rightarrow> findings" where
  "ruleNewDomain domain s =
     foldl (\<lambda>s pattern.
        if test pattern domain
        then fire newDomainThreat newDomainWarning escalate 20 s
        else s) s newDomainIndicators"

subsection \<open>9. File download indicators\<close>

definition downloadPatterns :: "RegExp list" where
  "downloadPatterns =
    [\<lparr>source = seqs [lit ''.'',
         alts [''exe'', ''zip'', ''rar'', ''bat'', ''scr'', ''pif'', ''com'', ''jar''], Eol],
       ignoreCase = True\<rparr>,
     \<lparr>source = seqs [lit ''download'', Rep Dot 0, lit ''file''], ignoreCase = True\<rparr>,
     \<lparr>source = seqs [lit ''update'', Rep Dot 0, lit ''exe''], ignoreCase = True\<rparr>,
     \<lparr>source = seqs [lit ''install'', Rep Dot 0, lit ''now''], ignoreCase = True\<rparr>]"

definition downloadThreat :: jsstring where
  "downloadThreat =
     [CU (CHR 0xD8) (CHR 0x3D), CU (CHR 0xDC) (CHR 0xE5)] @ js '' Potential file download detected''"

definition downloadWarning :: jsstring where
  "downloadWarning =
     js ''This URL may automatically download files to your computer, which could be dangerous.''"

definition ruleDownload :: "jsstring \<Rightarrow> findings \<Rightarrow> findings" where
  "ruleDownload fullUrl s =
     foldl (\<lambda>s pattern.
        if test pattern fullUrl
        then fire downloadThreat downloadWarning toDangerous 60 s
        else s) s downloadPatterns"

subsection \<open>Brand impersonation\<close>

record brandPattern =
  brand :: jsstring
  legitimate :: "jsstring list"
  severity :: int

definition brandPatterns :: "brandPattern list" where
  "brandPatterns =
    [\<lparr>brand = js ''paypal'',
      legitimate = map js [''paypal.com'', ''paypal.co.uk'', ''paypal.ca'', ''paypal.de'', ''paypal.fr''],
      severity = 60\<rparr>,
     \<lparr>brand = js ''amazon'',
      legitimate = map js [''amazon.com'', ''amazon.co.uk'', ''amazon.de'', ''amazon.fr'', ''amazon.ca'',
                           ''amazon.in'', ''amazon.jp''],
      severity = 55\<rparr>,
     \<lparr>brand = js ''microsoft'',
      legitimate = map js [''microsoft.com'', ''live.com'', ''outlook.com'', ''hotmail.com'', ''xbox.com''],
      severity = 50\<rparr>,
     \<lparr>brand = js ''google'',
      legitimate = map js [''google.com'', ''gmail.com'', ''youtube.com'', ''google.co.uk'', ''google.de'',
                           ''google.fr''],
      severity = 50\<rparr>,
     \<lparr>brand = js ''apple'',
      legitimate = map js [''apple.com'', ''icloud.com'', ''mac.com'', ''me.com''],
      severity = 55\<rparr>,
     \<lparr>brand = js ''facebook'',
      legitimate = map js [''facebook.com'', ''fb.com'', ''meta.com'', ''instagram.com'', ''whatsapp.com''],
      severity = 45\<rparr>,
     \<lparr>brand = js ''netflix'', legitimate = map js [''netflix.com''], severity = 40\<rparr>,
     \<lparr>brand = js ''spotify'', legitimate = map js [''spotify.com''], severity = 35\<rparr>,
     \<lparr>brand = js ''linkedin'', legitimate = map js [''linkedin.com''], severity = 40\<rparr>,
     \<lparr>brand = js ''twitter'', legitimate = map js [''twitter.com'', ''x.com''], severity = 40\<rparr>]"

definition isLegitimate :: "jsstring \<Rightarrow> brandPattern \<Rightarrow> bool" where
  "isLegitimate domain pattern =
     list_ex (\<lambda>legit. domain = legit \<or> endsWith domain (js ''.'' @ legit)) (legitimate pattern)"

definition impersonates :: "jsstring \<Rightarrow> brandPattern \<Rightarrow> bool" where
  "impersonates domain pattern =
     (includes_str domain (brand pattern) \<and> \<not> isLegitimate domain pattern)"

definition brandThreat :: "platform \<Rightarrow> jsstring \<Rightarrow> jsstring" where
  \<comment> \<open>\<^verbatim>\<open>brand.charAt(0).toUpperCase() + brand.slice(1)\<close> in the middle\<close>
  "brandThreat P b =
     [CU (CHR 0xD8) (CHR 0x3E), CU (CHR 0xDD) (CHR 0x77)] @ js '' Possible ''
     @ toUpperCase P (take 1 b) @ drop 1 b @ js '' impersonation''"

definition brandWarning :: "jsstring \<Rightarrow> jsstring" where
  "brandWarning b =
     js ''This URL appears to impersonate '' @ b
     @ js '' but isn't the real website. Always verify URLs carefully.''"

definition ruleBrand :: "platform \<Rightarrow> jsstring \<Rightarrow> findings \<Rightarrow> findings" where
  "ruleBrand P domain s =
     foldl (\<lambda>s pattern.
        if impersonates domain pattern
        then fire (brandThreat P (brand pattern)) (brandWarning (brand pattern))
               toDangerous (severity pattern) s
        else s) s brandPatterns"

subsection \<open>13. Suspicious top-level domains\<close>

definition suspiciousTlds :: "jsstring list" where
  "suspiciousTlds = map js
    [''.tk'', ''.ml'', ''.ga'', ''.cf'', ''.pw'', ''.top'', ''.click'', ''.download'', ''.stream'',
     ''.science'', ''.work'', ''.party'', ''.date'', ''.racing'', ''.review'', ''.faith'',
     ''.cricket'', ''.win'', ''.bid'', ''.loan'', ''.trade'', ''.accountant'', ''.men'',
     ''.xyz'', ''.club'', ''.online'', ''.site'', ''.website'', ''.space'']"

definition tldThreat :: "jsstring \<Rightarrow> jsstring" where
  "tldThreat tld =
     [CU (CHR 0xD8) (CHR 0x3E), CU (CHR 0xDD) (CHR 0xEA)] @ js '' High-risk domain extension: '' @ tld"

definition tldWarning :: "jsstring \<Rightarrow> jsstring" where
  "tldWarning tld =
     js ''This website uses a domain extension ('' @ tld
     @ js '') that's commonly associated with spam and malicious sites.''"

definition ruleTld :: "jsstring \<Rightarrow> findings \<Rightarrow> findings" where
  \<comment> \<open>the loop leaves at the first hit (\<^verbatim>\<open>break\<close>)\<close>
  "ruleTld domain s =
     (case find (\<lambda>tld. endsWith domain tld) suspiciousTlds of
        None \<Rightarrow> s
      | Some tld \<Rightarrow> fire (tldThreat tld) (tldWarning tld) escalate 25 s)"

subsection \<open>URL shorteners\<close>

definition urlShorteners :: "jsstring list" where
  "urlShorteners = map js
    [''bit.ly'', ''tinyurl.com'', ''t.co'', ''short.link'', ''goo.gl'', ''ow.ly'',
     ''is.gd'', ''buff.ly'', ''adf.ly'', ''bl.ink'', ''lnkd.in'', ''tiny.cc'',
     ''rb.gy'', ''shorturl.at'', ''cutt.ly'', ''bitly.com'']"

definition shortenerThreat :: jsstring where
  "shortenerThreat =
     [CU (CHR 0xD8) (CHR 0x3D), CU (CHR 0xDD) (CHR 0x17)]
     @ js '' URL shortener detected - destination hidden''"

definition shortenerWarning :: jsstring where
  "shortenerWarning =
     js ''This is a shortened URL that hides the real destination. Be cautious as you can't see where it actually leads.''"

definition ruleShortener :: "jsstring \<Rightarrow> findings \<Rightarrow> findings" where
  \<comment> \<open>the loop leaves at the first hit (\<^verbatim>\<open>break\<close>)\<close>
  "ruleShortener domain s =
     (case find (\<lambda>shortener. includes_str domain shortener) urlShorteners of
        None \<Rightarrow> s
      | Some shortener \<Rightarrow>
          fire shortenerThreat shortenerWarning escalate 20 s)"

subsection \<open>Phishing keywords\<close>

definition phishingKeywords :: "jsstring list" where
  "phishingKeywords = map js
    [''verify'', ''secure'', ''account'', ''update'', ''confirm'', ''login'', ''signin'',
     ''security'', ''suspended'', ''limited'', ''unusual'', ''activity'', ''locked'',
     ''billing'', ''payment'', ''invoice'', ''refund'', ''claim'', ''winner'',
     ''congratulations'', ''urgent'', ''immediate'', ''action'', ''required'',
     ''suspended'', ''violation'', ''expire'', ''expiry'']"

definition foundKeywords :: "jsstring \<Rightarrow> jsstring \<Rightarrow> jsstring list" where
  "foundKeywords domain path =
     filter (\<lambda>keyword. includes_str domain keyword \<or> includes_str path keyword) phishingKeywords"

definition keywordThreat :: "jsstring list \<Rightarrow> jsstring" where
  \<comment> \<open>\<^verbatim>\<open>foundKeywords.slice(0, 3).join(', ')\<close> at the end\<close>
  "keywordThreat found =
     [CU (CHR 0xD8) (CHR 0x3D), CU (CHR 0xDE) (CHR 0xA8)]
     @ js '' Multiple urgent keywords detected: '' @ join (js '', '') (take 3 found)"

definition keywordWarning :: jsstring where
  "keywordWarning =
     js ''This URL contains multiple words designed to create urgency or fear. Legitimate companies rarely use such tactics.''"

definition ruleKeywords :: "jsstring \<Rightarrow> jsstring \<Rightarrow> findings \<Rightarrow> findings" where
  "ruleKeywords domain path s =
     (if length (foundKeywords domain path) \<ge> 2
      then fire (keywordThreat (foundKeywords domain path)) keywordWarning toDangerous 50 s
      else s)"

subsection \<open>IP address and Punycode\<close>

definition ipPattern :: RegExp where
  \<comment> \<open>\<^verbatim>\<open>/^\d+\.\d+\.\d+\.\d+/\<close>\<close>
  "ipPattern =
     \<lparr>source = seqs [Bol, Rep digitClass 1, lit ''.'', Rep digitClass 1, lit ''.'',
                     Rep digitClass 1, lit ''.'', Rep digitClass 1],
      ignoreCase = False\<rparr>"

definition ipThreat :: jsstring where
  "ipThreat =
     [CU (CHR 0xD8) (CHR 0x3C), CU (CHR 0xDF) (CHR 0x10)]
     @ js '' IP address instead of domain name''"

definition ipWarning :: jsstring where
  "ipWarning =
     js ''This URL uses an IP address instead of a proper domain name, which is unusual for legitimate websites.''"

definition ruleIp :: "jsstring \<Rightarrow> findings \<Rightarrow> findings" where
  "ruleIp domain s =
     (if test ipPattern domain
      then fire ipThreat ipWarning toSuspicious 35 s
      else s)"

definition punycodeThreat :: jsstring where
  "punycodeThreat =
     [CU (CHR 0xD8) (CHR 0x3D), CU (CHR 0xDD) (CHR 0x0D)]
     @ js '' Punycode domain detected (possible spoofing)''"

definition punycodeWarning :: jsstring where
  "punycodeWarning =
     js ''This URL uses special encoding that could be hiding its true appearance. This is sometimes used for spoofing.''"

definition rulePunycode :: "jsstring \<Rightarrow> findings \<Rightarrow> findings" where
  "rulePunycode domain s =
     (if includes_str domain (js ''xn--'')
      then fire punycodeThreat punycodeWarning toSuspicious 40 s
      else s)"

section \<open>The scan\<close>

text \<open>
  The body of the \<^verbatim>\<open>try\<close> block after the URL has been parsed: the rules in the order of
  the source, each working on the findings that the rules before it have left.
\<close>

definition battery :: "platform \<Rightarrow> jsstring \<Rightarrow> URL \<Rightarrow> (findings \<Rightarrow> findings) list" where
  "battery P urlToAnalyze urlObj =
     (let domain = toLowerCase P (hostname urlObj);
          fullUrl = toLowerCase P urlToAnalyze
      in [ruleMisspelling domain,
          ruleHomograph domain,
          ruleHttps urlToAnalyze,
          ruleSubdomain domain,
          ruleLength fullUrl,
          ruleRedirect fullUrl,
          ruleNewDomain domain,
          ruleDownload fullUrl,
          ruleBrand P domain,
          ruleTld domain,
          ruleShortener domain,
          ruleKeywords domain (toLowerCase P (pathname urlObj)),
          ruleIp domain,
          rulePunycode domain])"

definition runRules :: "(findings \<Rightarrow> findings) list \<Rightarrow> findings \<Rightarrow> findings" where
  "runRules rules s = foldl (\<lambda>s rule. rule s) s rules"

definition initial :: findings where
  "initial = \<lparr>threats = [], warnings = [], riskLevel = Safe, score = 100\<rparr>"

definition clampScore :: "findings \<Rightarrow> findings" where
  \<comment> \<open>\<^verbatim>\<open>score = Math.max(0, score)\<close>\<close>
  "clampScore s = s\<lparr>score := max 0 (score s)\<rparr>"

definition invalidThreat :: jsstring where
  "invalidThreat = [CU (CHR 0x27) (CHR 0x4C)] @ js '' Invalid URL format''"

definition invalidWarning :: jsstring where
  "invalidWarning = js ''This URL format appears to be invalid or malformed.''"

definition invalidUrl :: "findings \<Rightarrow> findings" where
  \<comment> \<open>the \<^verbatim>\<open>catch\<close> block\<close>
  "invalidUrl s =
     s\<lparr>threats := threats s @ [invalidThreat], warnings := warnings s @ [invalidWarning],
       riskLevel := Suspicious, score := 30\<rparr>"

definition noThreatsThreat :: jsstring where
  "noThreatsThreat = [CU (CHR 0x27) (CHR 0x05)] @ js '' No obvious threats detected''"

definition noThreatsWarning :: jsstring where
  "noThreatsWarning =
     js ''This URL appears to be safe, but always exercise caution when clicking links.''"

definition noThreats :: "findings \<Rightarrow> findings" where
  "noThreats s =
     (if length (threats s) = 0
      then s\<lparr>threats := threats s @ [noThreatsThreat],
             warnings := warnings s @ [noThreatsWarning]\<rparr>
      else s)"

text \<open>
  The warning that the source pushes together with a threat: \<open>explains t w\<close> holds for
  the pairs of a threat message and a warning message that one push site of the source
  puts on the two lists.
\<close>

inductive explains :: "jsstring \<Rightarrow> jsstring \<Rightarrow> bool" where
  "explains (misspellingThreat m c) (misspellingWarning c)"
| "explains homographThreat homographWarning"
| "explains httpsThreat httpsWarning"
| "explains subdomainThreat subdomainWarning"
| "explains (lengthThreat n) lengthWarning"
| "explains redirectThreat redirectWarning"
| "explains newDomainThreat newDomainWarning"
| "explains downloadThreat downloadWarning"
| "explains (brandThreat P b) (brandWarning b)"
| "explains (tldThreat tld) (tldWarning tld)"
| "explains shortenerThreat shortenerWarning"
| "explains (keywordThreat found) keywordWarning"
| "explains ipThreat ipWarning"
| "explains punycodeThreat punycodeWarning"
| "explains invalidThreat invalidWarning"
| "explains noThreatsThreat noThreatsWarning"

text \<open>
  The \<^verbatim>\<open>try\<close> statement. Only the constructor call, its first statement, can throw, so
  the \<^verbatim>\<open>catch\<close> block starts from the initial findings.
\<close>

definition classify :: "platform \<Rightarrow> jsstring \<Rightarrow> findings" where
  "classify P urlToAnalyze =
     noThreats
       (case new_URL P urlToAnalyze of
          Some urlObj \<Rightarrow> clampScore (runRules (battery P urlToAnalyze urlObj) initial)
        | None \<Rightarrow> invalidUrl initial)"

definition geoLocations :: "jsstring list" where
  "geoLocations = map js [''US'', ''CN'', ''RU'', ''Unknown'']"

definition mentionsTyposquatting :: "jsstring \<Rightarrow> bool" where
  \<comment> \<open>\<^verbatim>\<open>t => t.includes('typosquatting') || t.includes('impersonation')\<close>\<close>
  "mentionsTyposquatting t =
     (includes_str t (js ''typosquatting'') \<or> includes_str t (js ''impersonation''))"

definition synthesize :: "platform \<Rightarrow> jsstring \<Rightarrow> findings \<Rightarrow> details" where
  "synthesize P urlToAnalyze s =
     \<lparr>domainAge = (if score s > 80 then js ''Established (>1 year)''
                   else if score s > 50 then js ''Moderate (6-12 months)''
                   else js ''New/Unknown (<6 months)''),
      ssl = startsWith urlToAnalyze (js ''https://''),
      reputation = (if score s > 80 then js ''Excellent'' else if score s > 60 then js ''Good''
                    else if score s > 40 then js ''Moderate'' else if score s > 20 then js ''Poor''
                    else js ''Critical''),
      typosquatting = list_ex mentionsTyposquatting (threats s),
      redirects = \<lfloor>random P 0 * 3\<rfloor>,
      contentType = (if includes_str urlToAnalyze (js ''.php'') then js ''Dynamic (PHP)''
                     else js ''Static/Unknown''),
      geoLocation = (let i = \<lfloor>random P 1 * 4\<rfloor>
                     in if 0 \<le> i \<and> i < 4 then Some (geoLocations ! nat i) else None),
      registrar = (if score s > 70 then js ''Trusted'' else js ''Unknown/Suspicious''),
      dnsRecords = (if score s > 60 then js ''Valid'' else js ''Suspicious/Missing''),
      securityHeaders = (if startsWith urlToAnalyze (js ''https://'') \<and> score s > 70
                         then js ''Present'' else js ''Missing/Weak'')\<rparr>"

definition analyzeUrl :: "platform \<Rightarrow> jsstring \<Rightarrow> ScanResult" where
  "analyzeUrl P urlToAnalyze =
     (let s = classify P urlToAnalyze
      in \<lparr>threats = threats s, warnings = warnings s, riskLevel = riskLevel s, score = score s,
          url = urlToAnalyze, details = synthesize P urlToAnalyze s\<rparr>)"

text \<open>
  \<^verbatim>\<open>handleScan\<close> on the text \<open>input\<close> of the field (the state \<^verbatim>\<open>url\<close>): a blank input is
  refused with a notification and nothing is scanned (\<open>None\<close>); otherwise the trimmed input, with \<^verbatim>\<open>https://\<close> put in front unless it starts
  with a scheme already, is analysed and the result is stored.
\<close>

definition handleScan :: "platform \<Rightarrow> jsstring \<Rightarrow> ScanResult option" where
  "handleScan P input =
     (if trim input = [] then None
      else (let urlToAnalyze = trim input;
                urlToAnalyze = (if \<not> startsWith urlToAnalyze (js ''http://'')
                                   \<and> \<not> startsWith urlToAnalyze (js ''https://'')
                                then js ''https://'' @ urlToAnalyze else urlToAnalyze)
            in Some (analyzeUrl P urlToAnalyze)))"

section \<open>A model of the platform for concrete inputs\<close>

text \<open>
  To run the scanner on concrete inputs the platform is instantiated. \<open>URL_new\<close> models
  the \<^verbatim>\<open>URL\<close> constructor on inputs of the shape
  \<^verbatim>\<open>http://host/path?query#fragment\<close> or \<^verbatim>\<open>https://host/path?query#fragment\<close> (path, query and
  fragment are optional) where the host consists of lower-case letters, digits, hyphens and
  dots, has no \<^verbatim>\<open>xn--\<close> in it and ends in a non-empty label of letters, and the path consists
  of letters, digits, \<^verbatim>\<open>/\<close>, \<^verbatim>\<open>-\<close> and \<^verbatim>\<open>_\<close>. On these the constructor succeeds, \<^verbatim>\<open>hostname\<close>
  is the host and \<^verbatim>\<open>pathname\<close> is the path, or \<^verbatim>\<open>/\<close> when the path is empty. Every other
  input is mapped to \<open>None\<close>; this is the constructor's answer (a \<^verbatim>\<open>TypeError\<close>) when the
  host is empty or holds a space, the two cases in which the theorems below rely on it.
  Case mapping is modelled for ASCII text, and \<^verbatim>\<open>Math.random\<close> by the constant 0.
\<close>

definition hostChar :: "cu \<Rightarrow> bool" where
  "hostChar c =
     (between (ascii (CHR ''a'')) (ascii (CHR ''z'')) c \<or> between (ascii (CHR ''0'')) (ascii (CHR ''9'')) c
      \<or> c = ascii (CHR ''-'') \<or> c = ascii (CHR ''.''))"

definition pathChar :: "cu \<Rightarrow> bool" where
  "pathChar c =
     (between (ascii (CHR ''a'')) (ascii (CHR ''z'')) c \<or> between (ascii (CHR ''A'')) (ascii (CHR ''Z'')) c
      \<or> between (ascii (CHR ''0'')) (ascii (CHR ''9'')) c
      \<or> c = ascii (CHR ''/'') \<or> c = ascii (CHR ''-'') \<or> c = ascii (CHR ''_''))"

definition lastLabel :: "jsstring \<Rightarrow> jsstring" where
  "lastLabel host = rev (takeWhile (\<lambda>c. c \<noteq> ascii (CHR ''.'')) (rev host))"

definition afterScheme :: "jsstring \<Rightarrow> URL option" where
  "afterScheme r =
     (let host = takeWhile (\<lambda>c. c \<notin> set (js ''/?#'')) r;
          rest = dropWhile (\<lambda>c. c \<notin> set (js ''/?#'')) r;
          path = takeWhile (\<lambda>c. c \<notin> set (js ''?#'')) rest
      in if host \<noteq> [] \<and> list_all hostChar host \<and> lastLabel host \<noteq> []
            \<and> list_all (between (ascii (CHR ''a'')) (ascii (CHR ''z''))) (lastLabel host)
            \<and> \<not> includes_str host (js ''xn--'') \<and> list_all pathChar path
         then Some \<lparr>hostname = host, pathname = (if path = [] then js ''/'' else path)\<rparr>
         else None)"

definition URL_new :: "jsstring \<Rightarrow> URL option" where
  "URL_new input =
     (if startsWith input (js ''https://'') then afterScheme (drop 8 input)
      else if startsWith input (js ''http://'') then afterScheme (drop 7 input)
      else None)"

definition browser :: platform where
  "browser = \<lparr>new_URL = URL_new, toLowerCase = map ascii_lower, toUpperCase = map ascii_upper,
               random = (\<lambda>k. 0)\<rparr>"

text \<open>
  Whether the two list-scanning rules that the detail flag \<^verbatim>\<open>typosquatting\<close> is about hit
  at least once on a host: the conditions of their loops.
\<close>

definition misspellingFires :: "jsstring \<Rightarrow> bool" where
  "misspellingFires domain =
     list_ex (\<lambda>check. list_ex (\<lambda>m. includes_str domain m) (misspelled check)) commonMisspellings"

definition impersonationFires :: "jsstring \<Rightarrow> bool" where
  "impersonationFires domain = list_ex (\<lambda>pattern. impersonates domain pattern) brandPatterns"

section \<open>Facts about strings\<close>

text \<open>The order \<open>le_cu\<close> on the two bytes is the order of the numbers of the code units.\<close>

lemma of_char_bound: "of_char c < (256 :: nat)"
proof -
  have "of_char c mod 256 < (256 :: nat)" by simp
  then show ?thesis by (simp only: of_char_mod_256)
qed

lemma le_cu_code: "le_cu a b \<longleftrightarrow> code a \<le> code b"
proof (cases a; cases b)
  fix h l h' l'
  assume ab: "a = CU h l" "b = CU h' l'"
  have bounds: "of_char l < (256::nat)" "of_char l' < (256::nat)" by (rule of_char_bound)+
  have "(of_char h < (of_char h' :: nat)
          \<or> ((of_char h :: nat) = of_char h' \<and> of_char l \<le> (of_char l' :: nat)))
        \<longleftrightarrow> 256 * of_char h + of_char l \<le> (256 * of_char h' + of_char l' :: nat)"
    using bounds by arith
  then show ?thesis
    unfolding ab by (simp add: less_char_def less_eq_char_def)
qed

lemma startsWith_prefix: "startsWith s p \<longleftrightarrow> prefix p s"
  by (induction s p rule: startsWith.induct) auto

lemma includes_sublist: "includes_str s n \<longleftrightarrow> sublist n s"
  by (induction s) (simp_all add: startsWith_prefix sublist_Cons_right)

lemma prefix_separator:
  assumes "c \<notin> set n"
  shows "prefix n (xs @ c # ys) \<longleftrightarrow> prefix n xs"
  using assms by (auto simp: prefix_append prefix_Cons)

lemma sublist_separator:
  assumes "c \<notin> set n" and "n \<noteq> []"
  shows "sublist n (xs @ c # ys) \<longleftrightarrow> sublist n xs \<or> sublist n ys"
proof (induction xs)
  case Nil
  have "\<not> prefix n (c # ys)" using assms by (auto simp: prefix_Cons)
  then show ?case using assms by (simp add: sublist_Cons_right)
next
  case (Cons x xs)
  have "prefix n (x # xs @ c # ys) \<longleftrightarrow> prefix n (x # xs)"
    using prefix_separator [OF assms(1), of "x # xs" ys] by simp
  with Cons show ?case by (auto simp: sublist_Cons_right)
qed

lemma sublist_skip:
  assumes "set pre \<inter> set n = {}" and "n \<noteq> []"
  shows "sublist n (pre @ rest) \<longleftrightarrow> sublist n rest"
  using assms
proof (induction pre)
  case Nil
  then show ?case by simp
next
  case (Cons c pre)
  then have "c \<notin> set n" by auto
  from sublist_separator [OF this Cons.prems(2), of "[]" "pre @ rest"] Cons show ?case
    by auto
qed

lemma join_clean:
  assumes "\<And>k. k \<in> set ks \<Longrightarrow> \<not> sublist n k" and "set sep \<inter> set n = {}"
    and "n \<noteq> []" and "sep \<noteq> []"
  shows "\<not> sublist n (join sep ks)"
  using assms
proof (induction sep ks rule: join.induct)
  case (1 sep)
  then show ?case by simp
next
  case (2 sep x)
  then show ?case by simp
next
  case (3 sep x y ys)
  from "3.prems"(4) obtain c sep' where sep: "sep = c # sep'" by (cases sep) auto
  with "3.prems"(2) have c: "c \<notin> set n" and sep': "set sep' \<inter> set n = {}" by auto
  have rest: "\<not> sublist n (join sep (y # ys))"
    using "3.IH" "3.prems" by simp
  have "sublist n (x @ c # (sep' @ join sep (y # ys)))
        \<longleftrightarrow> sublist n x \<or> sublist n (join sep (y # ys))"
    using sublist_separator [OF c "3.prems"(3)] sublist_skip [OF sep' "3.prems"(3)] by simp
  with rest "3.prems"(1) [of x] show ?case by (simp add: sep)
qed

lemma toString_digits: "set (toString n) \<subseteq> set (js ''0123456789'')"
proof (induction n rule: toString.induct)
  case (1 n)
  have d: "digit k \<in> set (js ''0123456789'')" if "k < 10" for k
  proof -
    from that have "k \<in> {0, 1, 2, 3, 4, 5, 6, 7, 8, 9}" by auto
    then show ?thesis by (auto simp: digit_def js_def)
  qed
  show ?case
  proof (cases "n < 10")
    case True
    then show ?thesis using d [of n] by (simp add: toString.simps [of n])
  next
    case False
    then show ?thesis using 1 d [of "n mod 10"] by (simp add: toString.simps [of n])
  qed
qed








lemma find_SomeD: "find Q xs = Some x \<Longrightarrow> x \<in> set xs"
  by (auto simp: find_Some_iff)

section \<open>Which threat messages mention typosquatting or impersonation\<close>

text \<open>
  The detail flag looks for two words in the threat messages. Only the message of the
  brand rule holds one of them; the messages with a variable part (a misspelling, a
  top-level domain, a length, a list of keywords) are covered for every value of it.
\<close>
lemma mentions_sublist:
  "mentionsTyposquatting t \<longleftrightarrow> sublist (js ''typosquatting'') t \<or> sublist (js ''impersonation'') t"
  by (simp add: mentionsTyposquatting_def includes_sublist)

lemma fixed_clean:
  "\<not> mentionsTyposquatting homographThreat"
  "\<not> mentionsTyposquatting httpsThreat"
  "\<not> mentionsTyposquatting subdomainThreat"
  "\<not> mentionsTyposquatting redirectThreat"
  "\<not> mentionsTyposquatting newDomainThreat"
  "\<not> mentionsTyposquatting downloadThreat"
  "\<not> mentionsTyposquatting shortenerThreat"
  "\<not> mentionsTyposquatting ipThreat"
  "\<not> mentionsTyposquatting punycodeThreat"
  "\<not> mentionsTyposquatting invalidThreat"
  "\<not> mentionsTyposquatting noThreatsThreat"
  by code_simp+

lemma misspelling_clean_all:
  "list_all (\<lambda>check. list_all (\<lambda>m. \<not> mentionsTyposquatting (misspellingThreat m (correct check)))
      (misspelled check)) commonMisspellings"
  by code_simp

lemma misspelling_clean:
  "check \<in> set commonMisspellings \<Longrightarrow> m \<in> set (misspelled check)
   \<Longrightarrow> \<not> mentionsTyposquatting (misspellingThreat m (correct check))"
  using misspelling_clean_all by (auto simp: list_all_iff)

lemma tld_clean_all: "list_all (\<lambda>tld. \<not> mentionsTyposquatting (tldThreat tld)) suspiciousTlds"
  by code_simp

lemma tld_clean: "tld \<in> set suspiciousTlds \<Longrightarrow> \<not> mentionsTyposquatting (tldThreat tld)"
  using tld_clean_all by (auto simp: list_all_iff)

lemma length_clean: "\<not> mentionsTyposquatting (lengthThreat n)"
proof
  assume "mentionsTyposquatting (lengthThreat n)"
  then have "set (js ''typosquatting'') \<subseteq> set (lengthThreat n)
           \<or> set (js ''impersonation'') \<subseteq> set (lengthThreat n)"
    unfolding mentions_sublist by (auto dest: set_mono_sublist)
  then have "ascii (CHR ''q'') \<in> set (lengthThreat n) \<or> ascii (CHR ''m'') \<in> set (lengthThreat n)"
    by (auto simp: js_def)
  moreover have "set (lengthThreat n)
      \<subseteq> set ([CU (CHR 0xD8) (CHR 0x3E), CU (CHR 0xDD) (CHR 0xE9)]
              @ js '' Unusually long or obfuscated URL detected ('' @ js ''0123456789''
              @ js '' characters)'')"
    using toString_digits [of n] unfolding lengthThreat_def by auto
  moreover have
    "ascii (CHR ''q'') \<notin> set ([CU (CHR 0xD8) (CHR 0x3E), CU (CHR 0xDD) (CHR 0xE9)]
              @ js '' Unusually long or obfuscated URL detected ('' @ js ''0123456789''
              @ js '' characters)'')"
    "ascii (CHR ''m'') \<notin> set ([CU (CHR 0xD8) (CHR 0x3E), CU (CHR 0xDD) (CHR 0xE9)]
              @ js '' Unusually long or obfuscated URL detected ('' @ js ''0123456789''
              @ js '' characters)'')"
    by code_simp+
  ultimately show False by blast
qed

lemma keywords_clean_all: "list_all (\<lambda>k. \<not> mentionsTyposquatting k) phishingKeywords"
  by code_simp

lemma keyword_prefix_clean:
  "\<not> mentionsTyposquatting
       ([CU (CHR 0xD8) (CHR 0x3D), CU (CHR 0xDE) (CHR 0xA8)] @ js '' Multiple urgent keywords detected:'')"
  by code_simp

lemma needle_chars:
  "ascii (CHR '' '') \<notin> set (js ''typosquatting'')" "ascii (CHR '' '') \<notin> set (js ''impersonation'')"
  "set (js '', '') \<inter> set (js ''typosquatting'') = {}"
  "set (js '', '') \<inter> set (js ''impersonation'') = {}"
  "js ''typosquatting'' \<noteq> []" "js ''impersonation'' \<noteq> []" "js '', '' \<noteq> []"
  by (simp_all add: js_def ascii_def)

lemma keyword_clean: "\<not> mentionsTyposquatting (keywordThreat (foundKeywords domain path))"
proof -
  let ?ks = "take 3 (foundKeywords domain path)"
  let ?pre = "[CU (CHR 0xD8) (CHR 0x3D), CU (CHR 0xDE) (CHR 0xA8)] @ js '' Multiple urgent keywords detected:''"
  have ks: "k \<in> set ?ks \<Longrightarrow> \<not> mentionsTyposquatting k" for k
    using keywords_clean_all
    by (auto simp: list_all_iff foundKeywords_def dest: in_set_takeD)
  have shape: "keywordThreat (foundKeywords domain path)
      = ?pre @ ascii (CHR '' '') # join (js '', '') ?ks"
    by (simp add: keywordThreat_def js_def)
  have "\<not> sublist n (keywordThreat (foundKeywords domain path))"
    if n: "ascii (CHR '' '') \<notin> set n" "set (js '', '') \<inter> set n = {}" "n \<noteq> []"
      and pre: "\<not> sublist n ?pre" and k: "\<And>k. k \<in> set ?ks \<Longrightarrow> \<not> sublist n k" for n
    unfolding shape sublist_separator [OF n(1,3)]
    using pre join_clean [OF k n(2,3) needle_chars(7)] by simp
  from this [of "js ''typosquatting''"] this [of "js ''impersonation''"]
  show ?thesis
    using ks keyword_prefix_clean needle_chars unfolding mentions_sublist by blast
qed

lemma brand_mentions: "mentionsTyposquatting (brandThreat P b)"
proof -
  have "sublist (js ''impersonation'') (js '' impersonation'')"
    unfolding includes_sublist [symmetric] by code_simp
  then have "sublist (js ''impersonation'') (xs @ js '' impersonation'')" for xs
    by (simp add: sublist_append)
  from this [of "[CU (CHR 0xD8) (CHR 0x3E), CU (CHR 0xDD) (CHR 0x77)] @ js '' Possible ''
                   @ toUpperCase P (take 1 b) @ drop 1 b"]
  have "sublist (js ''impersonation'') (brandThreat P b)"
    by (simp add: brandThreat_def)
  then show ?thesis by (simp add: mentions_sublist)
qed

section \<open>Every rule is a sequence of firings\<close>

text \<open>
  A property of the findings that holds before a rule and is kept by every firing with
  a non-negative penalty holds after the rule, and so after the whole battery. Of every
  rule but the brand rule the firings moreover carry a threat message without the two
  words of the detail flag.
\<close>

lemma fire_fields:
  "threats (fire t w l p s) = threats s @ [t]"
  "warnings (fire t w l p s) = warnings s @ [w]"
  "riskLevel (fire t w l p s) = l (riskLevel s)"
  "score (fire t w l p s) = score s - p"
  by (simp_all add: fire_def)

lemma foldl_induct:
  assumes "I s" and "\<And>s x. I s \<Longrightarrow> x \<in> set xs \<Longrightarrow> I (f s x)"
  shows "I (foldl f s xs)"
  using assms by (induction xs arbitrary: s) simp_all

lemma brand_severity: "pattern \<in> set brandPatterns \<Longrightarrow> 0 \<le> severity pattern"
  by (auto simp: brandPatterns_def)

lemma ruleMisspelling_induct:
  assumes "I s"
    and step: "\<And>s t w l p. I s \<Longrightarrow> 0 \<le> p \<Longrightarrow> \<not> mentionsTyposquatting t \<Longrightarrow> explains t w
                 \<Longrightarrow> I (fire t w l p s)"
  shows "I (ruleMisspelling domain s)"
  unfolding ruleMisspelling_def
  by (rule foldl_induct, rule assms(1), rule foldl_induct, assumption,
      simp add: step misspelling_clean explains.intros)

lemma ruleHomograph_induct:
  assumes "I s"
    and step: "\<And>s t w l p. I s \<Longrightarrow> 0 \<le> p \<Longrightarrow> \<not> mentionsTyposquatting t \<Longrightarrow> explains t w
                 \<Longrightarrow> I (fire t w l p s)"
  shows "I (ruleHomograph domain s)"
  unfolding ruleHomograph_def
  by (rule foldl_induct, rule assms(1), simp add: step fixed_clean explains.intros)

lemma ruleHttps_induct:
  assumes "I s"
    and step: "\<And>s t w l p. I s \<Longrightarrow> 0 \<le> p \<Longrightarrow> \<not> mentionsTyposquatting t \<Longrightarrow> explains t w
                 \<Longrightarrow> I (fire t w l p s)"
  shows "I (ruleHttps urlToAnalyze s)"
  unfolding ruleHttps_def
  using assms(1) by (simp add: step fixed_clean explains.intros)

lemma ruleSubdomain_induct:
  assumes "I s"
    and step: "\<And>s t w l p. I s \<Longrightarrow> 0 \<le> p \<Longrightarrow> \<not> mentionsTyposquatting t \<Longrightarrow> explains t w
                 \<Longrightarrow> I (fire t w l p s)"
  shows "I (ruleSubdomain domain s)"
  unfolding ruleSubdomain_def
  by (rule foldl_induct, rule assms(1), simp add: step fixed_clean explains.intros)

lemma ruleLength_induct:
  assumes "I s"
    and step: "\<And>s t w l p. I s \<Longrightarrow> 0 \<le> p \<Longrightarrow> \<not> mentionsTyposquatting t \<Longrightarrow> explains t w
                 \<Longrightarrow> I (fire t w l p s)"
  shows "I (ruleLength fullUrl s)"
  unfolding ruleLength_def
  using assms(1) by (simp add: step length_clean explains.intros Let_def)

lemma ruleRedirect_induct:
  assumes "I s"
    and step: "\<And>s t w l p. I s \<Longrightarrow> 0 \<le> p \<Longrightarrow> \<not> mentionsTyposquatting t \<Longrightarrow> explains t w
                 \<Longrightarrow> I (fire t w l p s)"
  shows "I (ruleRedirect fullUrl s)"
  unfolding ruleRedirect_def
  by (rule foldl_induct, rule assms(1), simp add: step fixed_clean explains.intros)

lemma ruleNewDomain_induct:
  assumes "I s"
    and step: "\<And>s t w l p. I s \<Longrightarrow> 0 \<le> p \<Longrightarrow> \<not> mentionsTyposquatting t \<Longrightarrow> explains t w
                 \<Longrightarrow> I (fire t w l p s)"
  shows "I (ruleNewDomain domain s)"
  unfolding ruleNewDomain_def
  by (rule foldl_induct, rule assms(1), simp add: step fixed_clean explains.intros)

lemma ruleDownload_induct:
  assumes "I s"
    and step: "\<And>s t w l p. I s \<Longrightarrow> 0 \<le> p \<Longrightarrow> \<not> mentionsTyposquatting t \<Longrightarrow> explains t w
                 \<Longrightarrow> I (fire t w l p s)"
  shows "I (ruleDownload fullUrl s)"
  unfolding ruleDownload_def
  by (rule foldl_induct, rule assms(1), simp add: step fixed_clean explains.intros)

lemma ruleTld_induct:
  assumes "I s"
    and step: "\<And>s t w l p. I s \<Longrightarrow> 0 \<le> p \<Longrightarrow> \<not> mentionsTyposquatting t \<Longrightarrow> explains t w
                 \<Longrightarrow> I (fire t w l p s)"
  shows "I (ruleTld domain s)"
  unfolding ruleTld_def
  using assms(1) by (auto simp: step tld_clean explains.intros split: option.split dest: find_SomeD)

lemma ruleShortener_induct:
  assumes "I s"
    and step: "\<And>s t w l p. I s \<Longrightarrow> 0 \<le> p \<Longrightarrow> \<not> mentionsTyposquatting t \<Longrightarrow> explains t w
                 \<Longrightarrow> I (fire t w l p s)"
  shows "I (ruleShortener domain s)"
  unfolding ruleShortener_def
  using assms(1) by (simp add: step fixed_clean explains.intros split: option.split)

lemma ruleKeywords_induct:
  assumes "I s"
    and step: "\<And>s t w l p. I s \<Longrightarrow> 0 \<le> p \<Longrightarrow> \<not> mentionsTyposquatting t \<Longrightarrow> explains t w
                 \<Longrightarrow> I (fire t w l p s)"
  shows "I (ruleKeywords domain path s)"
  unfolding ruleKeywords_def
  using assms(1) by (simp add: step keyword_clean explains.intros)

lemma ruleIp_induct:
  assumes "I s"
    and step: "\<And>s t w l p. I s \<Longrightarrow> 0 \<le> p \<Longrightarrow> \<not> mentionsTyposquatting t \<Longrightarrow> explains t w
                 \<Longrightarrow> I (fire t w l p s)"
  shows "I (ruleIp domain s)"
  unfolding ruleIp_def
  using assms(1) by (simp add: step fixed_clean explains.intros)

lemma rulePunycode_induct:
  assumes "I s"
    and step: "\<And>s t w l p. I s \<Longrightarrow> 0 \<le> p \<Longrightarrow> \<not> mentionsTyposquatting t \<Longrightarrow> explains t w
                 \<Longrightarrow> I (fire t w l p s)"
  shows "I (rulePunycode domain s)"
  unfolding rulePunycode_def
  using assms(1) by (simp add: step fixed_clean explains.intros)

lemma ruleBrand_induct:
  assumes "I s" and step: "\<And>s t w l p. I s \<Longrightarrow> 0 \<le> p \<Longrightarrow> explains t w \<Longrightarrow> I (fire t w l p s)"
  shows "I (ruleBrand P domain s)"
  unfolding ruleBrand_def
  by (rule foldl_induct, rule assms(1), simp add: step brand_severity explains.intros)

lemma battery_induct:
  assumes init: "I s" and step: "\<And>s t w l p. I s \<Longrightarrow> 0 \<le> p \<Longrightarrow> explains t w \<Longrightarrow> I (fire t w l p s)"
  shows "I (runRules (battery P u urlObj) s)"
  unfolding runRules_def battery_def Let_def foldl_Cons foldl_Nil
  by (intro ruleMisspelling_induct [of I] ruleHomograph_induct [of I] ruleHttps_induct [of I]
      ruleSubdomain_induct [of I] ruleLength_induct [of I] ruleRedirect_induct [of I]
      ruleNewDomain_induct [of I] ruleDownload_induct [of I] ruleBrand_induct [of I]
      ruleTld_induct [of I] ruleShortener_induct [of I] ruleKeywords_induct [of I]
      ruleIp_induct [of I] rulePunycode_induct [of I] init step)

subsection \<open>The detail flag through the battery\<close>

lemma ruleMisspelling_flag:
  "list_ex mentionsTyposquatting (threats (ruleMisspelling domain s)) = list_ex mentionsTyposquatting (threats s)"
  by (rule ruleMisspelling_induct
        [where I = "\<lambda>s'. list_ex mentionsTyposquatting (threats s') = list_ex mentionsTyposquatting (threats s)"])
     (simp_all add: fire_fields)

lemma ruleHomograph_flag:
  "list_ex mentionsTyposquatting (threats (ruleHomograph domain s)) = list_ex mentionsTyposquatting (threats s)"
  by (rule ruleHomograph_induct
        [where I = "\<lambda>s'. list_ex mentionsTyposquatting (threats s') = list_ex mentionsTyposquatting (threats s)"])
     (simp_all add: fire_fields)

lemma ruleHttps_flag:
  "list_ex mentionsTyposquatting (threats (ruleHttps u s)) = list_ex mentionsTyposquatting (threats s)"
  by (rule ruleHttps_induct
        [where I = "\<lambda>s'. list_ex mentionsTyposquatting (threats s') = list_ex mentionsTyposquatting (threats s)"])
     (simp_all add: fire_fields)

lemma ruleSubdomain_flag:
  "list_ex mentionsTyposquatting (threats (ruleSubdomain domain s)) = list_ex mentionsTyposquatting (threats s)"
  by (rule ruleSubdomain_induct
        [where I = "\<lambda>s'. list_ex mentionsTyposquatting (threats s') = list_ex mentionsTyposquatting (threats s)"])
     (simp_all add: fire_fields)

lemma ruleLength_flag:
  "list_ex mentionsTyposquatting (threats (ruleLength fullUrl s)) = list_ex mentionsTyposquatting (threats s)"
  by (rule ruleLength_induct
        [where I = "\<lambda>s'. list_ex mentionsTyposquatting (threats s') = list_ex mentionsTyposquatting (threats s)"])
     (simp_all add: fire_fields)

lemma ruleRedirect_flag:
  "list_ex mentionsTyposquatting (threats (ruleRedirect fullUrl s)) = list_ex mentionsTyposquatting (threats s)"
  by (rule ruleRedirect_induct
        [where I = "\<lambda>s'. list_ex mentionsTyposquatting (threats s') = list_ex mentionsTyposquatting (threats s)"])
     (simp_all add: fire_fields)

lemma ruleNewDomain_flag:
  "list_ex mentionsTyposquatting (threats (ruleNewDomain domain s)) = list_ex mentionsTyposquatting (threats s)"
  by (rule ruleNewDomain_induct
        [where I = "\<lambda>s'. list_ex mentionsTyposquatting (threats s') = list_ex mentionsTyposquatting (threats s)"])
     (simp_all add: fire_fields)

lemma ruleDownload_flag:
  "list_ex mentionsTyposquatting (threats (ruleDownload fullUrl s)) = list_ex mentionsTyposquatting (threats s)"
  by (rule ruleDownload_induct
        [where I = "\<lambda>s'. list_ex mentionsTyposquatting (threats s') = list_ex mentionsTyposquatting (threats s)"])
     (simp_all add: fire_fields)

lemma ruleTld_flag:
  "list_ex mentionsTyposquatting (threats (ruleTld domain s)) = list_ex mentionsTyposquatting (threats s)"
  by (rule ruleTld_induct
        [where I = "\<lambda>s'. list_ex mentionsTyposquatting (threats s') = list_ex mentionsTyposquatting (threats s)"])
     (simp_all add: fire_fields)

lemma ruleShortener_flag:
  "list_ex mentionsTyposquatting (threats (ruleShortener domain s)) = list_ex mentionsTyposquatting (threats s)"
  by (rule ruleShortener_induct
        [where I = "\<lambda>s'. list_ex mentionsTyposquatting (threats s') = list_ex mentionsTyposquatting (threats s)"])
     (simp_all add: fire_fields)

lemma ruleKeywords_flag:
  "list_ex mentionsTyposquatting (threats (ruleKeywords domain path s)) = list_ex mentionsTyposquatting (threats s)"
  by (rule ruleKeywords_induct
        [where I = "\<lambda>s'. list_ex mentionsTyposquatting (threats s') = list_ex mentionsTyposquatting (threats s)"])
     (simp_all add: fire_fields)

lemma ruleIp_flag:
  "list_ex mentionsTyposquatting (threats (ruleIp domain s)) = list_ex mentionsTyposquatting (threats s)"
  by (rule ruleIp_induct
        [where I = "\<lambda>s'. list_ex mentionsTyposquatting (threats s') = list_ex mentionsTyposquatting (threats s)"])
     (simp_all add: fire_fields)

lemma rulePunycode_flag:
  "list_ex mentionsTyposquatting (threats (rulePunycode domain s)) = list_ex mentionsTyposquatting (threats s)"
  by (rule rulePunycode_induct
        [where I = "\<lambda>s'. list_ex mentionsTyposquatting (threats s') = list_ex mentionsTyposquatting (threats s)"])
     (simp_all add: fire_fields)

lemma ruleBrand_flag:
  "list_ex mentionsTyposquatting (threats (ruleBrand P domain s))
   \<longleftrightarrow> list_ex mentionsTyposquatting (threats s) \<or> impersonationFires domain"
proof -
  have "list_ex mentionsTyposquatting (threats (foldl (\<lambda>s pattern.
            if impersonates domain pattern
            then fire (brandThreat P (brand pattern)) (brandWarning (brand pattern))
                   toDangerous (severity pattern) s
            else s) s xs))
        \<longleftrightarrow> list_ex mentionsTyposquatting (threats s) \<or> list_ex (impersonates domain) xs" for xs
    by (induction xs arbitrary: s) (auto simp: fire_fields brand_mentions)
  then show ?thesis by (simp add: ruleBrand_def impersonationFires_def)
qed

lemma battery_flag:
  "list_ex mentionsTyposquatting (threats (runRules (battery P u urlObj) initial))
   \<longleftrightarrow> impersonationFires (toLowerCase P (hostname urlObj))"
  unfolding runRules_def battery_def Let_def foldl_Cons foldl_Nil
  by (simp add: ruleMisspelling_flag ruleHomograph_flag ruleHttps_flag ruleSubdomain_flag
      ruleLength_flag ruleRedirect_flag ruleNewDomain_flag ruleDownload_flag ruleBrand_flag
      ruleTld_flag ruleShortener_flag ruleKeywords_flag ruleIp_flag rulePunycode_flag
      initial_def)

lemma noThreats_flag:
  "list_ex mentionsTyposquatting (threats (noThreats s)) = list_ex mentionsTyposquatting (threats s)"
  by (simp add: noThreats_def fixed_clean)

section \<open>The result of a scan\<close>

lemma classify_cases:
  assumes "\<And>urlObj. new_URL P u = Some urlObj \<Longrightarrow>
             Q (noThreats (clampScore (runRules (battery P u urlObj) initial)))"
    and "new_URL P u = None \<Longrightarrow> Q (noThreats (invalidUrl initial))"
  shows "Q (classify P u)"
  using assms unfolding classify_def by (cases "new_URL P u") simp_all

lemma analyzeUrl_fields:
  "threats (analyzeUrl P u) = threats (classify P u)"
  "warnings (analyzeUrl P u) = warnings (classify P u)"
  "riskLevel (analyzeUrl P u) = riskLevel (classify P u)"
  "score (analyzeUrl P u) = score (classify P u)"
  "url (analyzeUrl P u) = u"
  "details (analyzeUrl P u) = synthesize P u (classify P u)"
  by (simp_all add: analyzeUrl_def Let_def)

lemma noThreats_fields:
  "riskLevel (noThreats s) = riskLevel s"
  "score (noThreats s) = score s"
  by (simp_all add: noThreats_def)

lemma battery_paired:
  "list_all2 explains (threats (runRules (battery P u urlObj) initial))
     (warnings (runRules (battery P u urlObj) initial))"
  by (rule battery_induct) (simp_all add: initial_def fire_fields list_all2_appendI)

lemma battery_score: "score (runRules (battery P u urlObj) initial) \<le> 100"
  by (rule battery_induct) (simp_all add: initial_def fire_fields)

subsection \<open>Scans of concrete inputs\<close>

lemma parse_colons: "new_URL browser (js ''https://::::'') = None"
  by code_simp

lemma classify_gooogle_login:
  "classify browser (js ''https://gooogle.com/login'')
   = \<lparr>threats = [misspellingThreat (js ''gooogle'') (js ''google'')],
      warnings = [misspellingWarning (js ''google'')], riskLevel = Dangerous, score = 30\<rparr>"
  by code_simp

text \<open>
  C3: the score of every result of \<open>analyzeUrl\<close> lies between 0 and 100. It starts at
  100, every firing subtracts a penalty that is not negative, and the end of the battery
  clamps it at 0; for an input that does not parse it is 30.
\<close>

theorem C3_score_range:
  "0 \<le> score (analyzeUrl P u) \<and> score (analyzeUrl P u) \<le> 100"
  unfolding analyzeUrl_fields
proof (rule classify_cases)
  fix urlObj
  show "0 \<le> score (noThreats (clampScore (runRules (battery P u urlObj) initial)))
      \<and> score (noThreats (clampScore (runRules (battery P u urlObj) initial))) \<le> 100"
    using battery_score [of P u urlObj] by (simp add: noThreats_fields clampScore_def)
next
  show "0 \<le> score (noThreats (invalidUrl initial))
      \<and> score (noThreats (invalidUrl initial)) \<le> 100"
    by (simp add: noThreats_fields invalidUrl_def)
qed

theorem C3_score_range_witness:
  "score (analyzeUrl browser (js ''https://gooogle.com/login'')) = 30
   \<and> 0 \<le> score (analyzeUrl browser (js ''https://gooogle.com/login''))
   \<and> score (analyzeUrl browser (js ''https://gooogle.com/login'')) \<le> 100"
  using C3_score_range [of browser "js ''https://gooogle.com/login''"]
  by (simp add: analyzeUrl_fields classify_gooogle_login)

text \<open>
  C9: in every result of \<open>analyzeUrl\<close> the threats and the warnings have the same length
  and correspond position by position: the warning at a position is the one that the
  source pushes together with the threat at that position (every firing, the no-threat
  entry and the invalid-URL entry push one of each). There is at least one of each.
\<close>

theorem C9_threats_warnings_same_length:
  "list_all2 explains (threats (analyzeUrl P u)) (warnings (analyzeUrl P u))
   \<and> length (threats (analyzeUrl P u)) = length (warnings (analyzeUrl P u))
   \<and> 0 < length (threats (analyzeUrl P u))"
proof -
  have "list_all2 explains (threats (classify P u)) (warnings (classify P u))
      \<and> 0 < length (threats (classify P u))"
  proof (rule classify_cases)
    fix urlObj
    show "list_all2 explains
            (threats (noThreats (clampScore (runRules (battery P u urlObj) initial))))
            (warnings (noThreats (clampScore (runRules (battery P u urlObj) initial))))
        \<and> 0 < length (threats (noThreats (clampScore (runRules (battery P u urlObj) initial))))"
      using battery_paired [of P u urlObj]
      by (auto simp: noThreats_def clampScore_def explains.intros)
  next
    show "list_all2 explains (threats (noThreats (invalidUrl initial)))
            (warnings (noThreats (invalidUrl initial)))
        \<and> 0 < length (threats (noThreats (invalidUrl initial)))"
      by (simp add: noThreats_def invalidUrl_def initial_def explains.intros)
  qed
  then show ?thesis
    by (auto simp: analyzeUrl_fields dest: list_all2_lengthD)
qed

theorem C9_threats_warnings_same_length_witness:
  "list_all2 explains [misspellingThreat (js ''gooogle'') (js ''google'')]
     [misspellingWarning (js ''google'')]
   \<and> length (threats (analyzeUrl browser (js ''https://gooogle.com/login''))) = 1
   \<and> length (warnings (analyzeUrl browser (js ''https://gooogle.com/login''))) = 1"
  using C9_threats_warnings_same_length [of browser "js ''https://gooogle.com/login''"]
  by (simp add: analyzeUrl_fields classify_gooogle_login)

lemma ruleBrand_random: "ruleBrand (P\<lparr>random := r\<rparr>) domain = ruleBrand P domain"
  by (rule ext) (simp add: ruleBrand_def brandThreat_def cong: if_cong)

lemma battery_random: "battery (P\<lparr>random := r\<rparr>) u urlObj = battery P u urlObj"
  by (simp add: battery_def ruleBrand_random)

lemma classify_random: "classify (P\<lparr>random := r\<rparr>) u = classify P u"
  by (simp add: classify_def battery_random cong: option.case_cong)

text \<open>
  C8: the level, the score, the threats and the warnings of a scan do not depend on the
  values that \<^verbatim>\<open>Math.random\<close> returns; they are a function of the input string (and of the
  platform's parser and case mappings).
\<close>

theorem C8_classification_deterministic:
  "riskLevel (analyzeUrl (P\<lparr>random := r\<rparr>) u) = riskLevel (analyzeUrl (P\<lparr>random := r'\<rparr>) u)
   \<and> score (analyzeUrl (P\<lparr>random := r\<rparr>) u) = score (analyzeUrl (P\<lparr>random := r'\<rparr>) u)
   \<and> threats (analyzeUrl (P\<lparr>random := r\<rparr>) u) = threats (analyzeUrl (P\<lparr>random := r'\<rparr>) u)
   \<and> warnings (analyzeUrl (P\<lparr>random := r\<rparr>) u) = warnings (analyzeUrl (P\<lparr>random := r'\<rparr>) u)"
  by (simp add: analyzeUrl_fields classify_random)

theorem C8_classification_deterministic_witness:
  "riskLevel (analyzeUrl (browser\<lparr>random := (\<lambda>k. 0)\<rparr>) (js ''https://gooogle.com/login''))
     = riskLevel (analyzeUrl (browser\<lparr>random := (\<lambda>k. 1 / 2)\<rparr>) (js ''https://gooogle.com/login''))
   \<and> threats (analyzeUrl (browser\<lparr>random := (\<lambda>k. 0)\<rparr>) (js ''https://gooogle.com/login''))
     = threats (analyzeUrl (browser\<lparr>random := (\<lambda>k. 1 / 2)\<rparr>) (js ''https://gooogle.com/login''))"
  using C8_classification_deterministic
    [where P = browser and r = "\<lambda>k. 0" and r' = "\<lambda>k. 1 / 2"
       and u = "js ''https://gooogle.com/login''"]
  by simp

lemma analyzeUrl_invalid:
  assumes "new_URL P u = None"
  shows "riskLevel (analyzeUrl P u) = Suspicious \<and> score (analyzeUrl P u) = 30
       \<and> threats (analyzeUrl P u) = [[CU (CHR 0x27) (CHR 0x4C)] @ js '' Invalid URL format'']
       \<and> warnings (analyzeUrl P u) = [js ''This URL format appears to be invalid or malformed.'']"
  using assms
  by (simp add: analyzeUrl_fields classify_def noThreats_def invalidUrl_def initial_def
      invalidThreat_def invalidWarning_def)

text \<open>
  C2, as amended: for every input that is not blank and whose trimmed text, with
  \<^verbatim>\<open>https://\<close> put in front unless it starts with a scheme, does not parse, \<open>handleScan\<close>
  scans that text and the result is exactly the level suspicious, the score 30, the one
  threat \<^verbatim>\<open>Invalid URL format\<close> behind its cross mark and the one warning
  \<^verbatim>\<open>This URL format appears to be invalid or malformed.\<close>; no rule has run.
\<close>

theorem C2_invalid_url:
  assumes "trim input \<noteq> []"
    and "u = (if \<not> startsWith (trim input) (js ''http://'')
                 \<and> \<not> startsWith (trim input) (js ''https://'')
              then js ''https://'' @ trim input else trim input)"
    and "new_URL P u = None"
  shows "handleScan P input = Some (analyzeUrl P u)
       \<and> riskLevel (analyzeUrl P u) = Suspicious \<and> score (analyzeUrl P u) = 30
       \<and> threats (analyzeUrl P u) = [[CU (CHR 0x27) (CHR 0x4C)] @ js '' Invalid URL format'']
       \<and> warnings (analyzeUrl P u) = [js ''This URL format appears to be invalid or malformed.'']"
proof -
  have "handleScan P input = Some (analyzeUrl P u)"
    using assms(1) unfolding assms(2) by (simp add: handleScan_def Let_def)
  with analyzeUrl_invalid [OF assms(3)] show ?thesis by simp
qed

theorem C2_invalid_url_witness:
  "trim (js ''::::'') \<noteq> []
   \<and> new_URL browser (js ''https://::::'') = None
   \<and> handleScan browser (js ''::::'') = Some (analyzeUrl browser (js ''https://::::''))
   \<and> riskLevel (analyzeUrl browser (js ''https://::::'')) = Suspicious
   \<and> score (analyzeUrl browser (js ''https://::::'')) = 30
   \<and> threats (analyzeUrl browser (js ''https://::::'')) = [invalidThreat]
   \<and> warnings (analyzeUrl browser (js ''https://::::'')) = [invalidWarning]"
proof -
  have h1: "trim (js ''::::'') \<noteq> []"
    by code_simp
  have h2: "js ''https://::::''
      = (if \<not> startsWith (trim (js ''::::'')) (js ''http://'')
            \<and> \<not> startsWith (trim (js ''::::'')) (js ''https://'')
         then js ''https://'' @ trim (js ''::::'') else trim (js ''::::''))"
    by code_simp
  from C2_invalid_url [OF h1 h2 parse_colons] h1 parse_colons show ?thesis
    by (simp add: invalidThreat_def invalidWarning_def)
qed

text \<open>
  The claim as it is worded fails in two ways. For the input \<^verbatim>\<open>::::\<close>, scanned as
  \<^verbatim>\<open>https://::::\<close>, which does not parse, the threat is not \<^verbatim>\<open>Invalid URL format\<close> alone
  and the warning is not \<^verbatim>\<open>malformed input\<close>. And the empty input, which would not parse
  after prefixing either, is refused by \<open>handleScan\<close> before anything is scanned.
\<close>

theorem C2_counterexample:
  "new_URL browser (js ''https://::::'') = None
   \<and> handleScan browser (js ''::::'') = Some (analyzeUrl browser (js ''https://::::''))
   \<and> threats (analyzeUrl browser (js ''https://::::'')) \<noteq> [js ''Invalid URL format'']
   \<and> warnings (analyzeUrl browser (js ''https://::::'')) \<noteq> [js ''malformed input'']
   \<and> new_URL browser (js ''https://'') = None
   \<and> handleScan browser [] = None"
proof -
  have "handleScan browser (js ''::::'') = Some (analyzeUrl browser (js ''https://::::''))"
    unfolding handleScan_def Let_def by code_simp
  moreover have "threats (analyzeUrl browser (js ''https://::::'')) \<noteq> [js ''Invalid URL format'']"
    "warnings (analyzeUrl browser (js ''https://::::'')) \<noteq> [js ''malformed input'']"
    "new_URL browser (js ''https://'') = None"
    by code_simp+
  moreover have "handleScan browser [] = None"
    by (simp add: handleScan_def trim_def)
  ultimately show ?thesis using parse_colons by simp
qed

text \<open>
  C5: the scan of \<^verbatim>\<open>https://gooogle.com/login\<close> has the level dangerous, its threats are
  the one misspelling finding for \<^verbatim>\<open>gooogle\<close>, which looks like google, and its score is
  30. The same holds when the input goes through \<open>handleScan\<close>.
\<close>

theorem C5_gooogle_login:
  "riskLevel (analyzeUrl browser (js ''https://gooogle.com/login'')) = Dangerous
   \<and> threats (analyzeUrl browser (js ''https://gooogle.com/login''))
       = [misspellingThreat (js ''gooogle'') (js ''google'')]
   \<and> score (analyzeUrl browser (js ''https://gooogle.com/login'')) = 30
   \<and> score (analyzeUrl browser (js ''https://gooogle.com/login'')) \<le> 30
   \<and> handleScan browser (js ''https://gooogle.com/login'')
       = Some (analyzeUrl browser (js ''https://gooogle.com/login''))"
proof -
  have "handleScan browser (js ''https://gooogle.com/login'')
        = Some (analyzeUrl browser (js ''https://gooogle.com/login''))"
    unfolding handleScan_def Let_def by code_simp
  then show ?thesis by (simp add: analyzeUrl_fields classify_gooogle_login)
qed

lemma classify_paypal:
  "classify browser (js ''https://secure-paypal-login.tk/verify?confirm=1'')
   = \<lparr>threats = [brandThreat browser (js ''paypal''), tldThreat (js ''.tk''),
                   keywordThreat (map js [''verify'', ''secure'', ''login''])],
      warnings = [brandWarning (js ''paypal''), tldWarning (js ''.tk''), keywordWarning],
      riskLevel = Dangerous, score = 0\<rparr>"
  by code_simp

lemma parse_paypal:
  "new_URL browser (js ''https://secure-paypal-login.tk/verify?confirm=1'')
   = Some \<lparr>hostname = js ''secure-paypal-login.tk'', pathname = js ''/verify''\<rparr>"
  by code_simp

lemma fires_paypal: "impersonationFires (js ''secure-paypal-login.tk'')"
  by code_simp

text \<open>
  C4: the scan of \<^verbatim>\<open>https://secure-paypal-login.tk/verify?confirm=1\<close> holds, in one result,
  a PayPal impersonation finding (the host contains \<^verbatim>\<open>paypal\<close> and is no PayPal domain), a
  finding for the extension \<^verbatim>\<open>.tk\<close> and a keyword finding (\<^verbatim>\<open>verify\<close> from the path,
  \<^verbatim>\<open>secure\<close> and \<^verbatim>\<open>login\<close> from the host), and its level is dangerous.
\<close>

theorem C4_secure_paypal_login:
  "threats (analyzeUrl browser (js ''https://secure-paypal-login.tk/verify?confirm=1''))
     = [brandThreat browser (js ''paypal''), tldThreat (js ''.tk''),
        keywordThreat (map js [''verify'', ''secure'', ''login''])]
   \<and> riskLevel (analyzeUrl browser (js ''https://secure-paypal-login.tk/verify?confirm=1'')) = Dangerous
   \<and> new_URL browser (js ''https://secure-paypal-login.tk/verify?confirm=1'')
       = Some \<lparr>hostname = js ''secure-paypal-login.tk'', pathname = js ''/verify''\<rparr>
   \<and> includes_str (js ''secure-paypal-login.tk'') (js ''paypal'')
   \<and> impersonationFires (js ''secure-paypal-login.tk'')
   \<and> endsWith (js ''secure-paypal-login.tk'') (js ''.tk'')
   \<and> foundKeywords (js ''secure-paypal-login.tk'') (js ''/verify'')
       = map js [''verify'', ''secure'', ''login'']"
proof -
  have "includes_str (js ''secure-paypal-login.tk'') (js ''paypal'')"
    "endsWith (js ''secure-paypal-login.tk'') (js ''.tk'')"
    "foundKeywords (js ''secure-paypal-login.tk'') (js ''/verify'')
       = map js [''verify'', ''secure'', ''login'']"
    by code_simp+
  then show ?thesis
    by (simp add: analyzeUrl_fields classify_paypal parse_paypal fires_paypal)
qed

text \<open>
  C1, on the input \<^verbatim>\<open>https://gooogle.com/redirect?url=x\<close>: after the first five rules the
  level is dangerous (the misspelling rule has fired), the sixth rule (open redirect)
  assigns suspicious, and suspicious is the level of the result. The level of a scan is
  therefore not monotone along the battery.
\<close>

theorem C1_level_lowered_by_redirect_rule:
  "new_URL browser (js ''https://gooogle.com/redirect?url=x'')
     = Some \<lparr>hostname = js ''gooogle.com'', pathname = js ''/redirect''\<rparr>
   \<and> riskLevel (runRules (take 5 (battery browser (js ''https://gooogle.com/redirect?url=x'')
          \<lparr>hostname = js ''gooogle.com'', pathname = js ''/redirect''\<rparr>)) initial) = Dangerous
   \<and> riskLevel (runRules (take 6 (battery browser (js ''https://gooogle.com/redirect?url=x'')
          \<lparr>hostname = js ''gooogle.com'', pathname = js ''/redirect''\<rparr>)) initial) = Suspicious
   \<and> riskLevel (analyzeUrl browser (js ''https://gooogle.com/redirect?url=x'')) = Suspicious
   \<and> threats (analyzeUrl browser (js ''https://gooogle.com/redirect?url=x''))
       = [misspellingThreat (js ''gooogle'') (js ''google''), redirectThreat]"
proof -
  have "new_URL browser (js ''https://gooogle.com/redirect?url=x'')
     = Some \<lparr>hostname = js ''gooogle.com'', pathname = js ''/redirect''\<rparr>"
    by code_simp
  moreover have
    "riskLevel (runRules (take 5 (battery browser (js ''https://gooogle.com/redirect?url=x'')
          \<lparr>hostname = js ''gooogle.com'', pathname = js ''/redirect''\<rparr>)) initial) = Dangerous"
    by code_simp
  moreover have
    "riskLevel (runRules (take 6 (battery browser (js ''https://gooogle.com/redirect?url=x'')
          \<lparr>hostname = js ''gooogle.com'', pathname = js ''/redirect''\<rparr>)) initial) = Suspicious"
    by code_simp
  moreover have "classify browser (js ''https://gooogle.com/redirect?url=x'')
     = \<lparr>threats = [misspellingThreat (js ''gooogle'') (js ''google''), redirectThreat],
        warnings = [misspellingWarning (js ''google''), redirectWarning],
        riskLevel = Suspicious, score = 0\<rparr>"
    by code_simp
  ultimately show ?thesis by (simp add: analyzeUrl_fields)
qed

lemma classify_facebook:
  "classify browser (js ''https://facebook.com'')
   = \<lparr>threats = [misspellingThreat (js ''facebook'') (js ''facebook''), downloadThreat],
      warnings = [misspellingWarning (js ''facebook''), downloadWarning],
      riskLevel = Dangerous, score = 0\<rparr>"
  by code_simp

lemma classify_facebook_slash:
  "classify browser (js ''https://facebook.com/'')
   = \<lparr>threats = [misspellingThreat (js ''facebook'') (js ''facebook'')],
      warnings = [misspellingWarning (js ''facebook'')],
      riskLevel = Dangerous, score = 30\<rparr>"
  by code_simp

text \<open>
  C10, as amended: \<^verbatim>\<open>facebook\<close> and \<^verbatim>\<open>amazon\<close> stand among their own misspellings. For the
  input \<^verbatim>\<open>https://facebook.com/\<close>, whose host is a legitimate domain of the brand, the
  misspelling rule fires and the brand rule does not; the level is dangerous and the score
  is 100 - 70 = 30. For \<^verbatim>\<open>https://facebook.com\<close> without the final slash the file-download
  rule fires as well, because the input ends in \<^verbatim>\<open>.com\<close>, and the score is 0.
\<close>

theorem C10_brand_in_own_misspellings:
  "map correct (filter (\<lambda>check. List.member (misspelled check) (correct check)) commonMisspellings)
     = map js [''facebook'', ''amazon'']
   \<and> new_URL browser (js ''https://facebook.com/'')
       = Some \<lparr>hostname = js ''facebook.com'', pathname = js ''/''\<rparr>
   \<and> misspellingFires (js ''facebook.com'') \<and> \<not> impersonationFires (js ''facebook.com'')
   \<and> threats (analyzeUrl browser (js ''https://facebook.com/''))
       = [misspellingThreat (js ''facebook'') (js ''facebook'')]
   \<and> riskLevel (analyzeUrl browser (js ''https://facebook.com/'')) = Dangerous
   \<and> score (analyzeUrl browser (js ''https://facebook.com/'')) = 30
   \<and> threats (analyzeUrl browser (js ''https://facebook.com''))
       = [misspellingThreat (js ''facebook'') (js ''facebook''), downloadThreat]
   \<and> riskLevel (analyzeUrl browser (js ''https://facebook.com'')) = Dangerous
   \<and> score (analyzeUrl browser (js ''https://facebook.com'')) = 0"
proof -
  have "map correct (filter (\<lambda>check. List.member (misspelled check) (correct check)) commonMisspellings)
     = map js [''facebook'', ''amazon'']"
    "new_URL browser (js ''https://facebook.com/'')
       = Some \<lparr>hostname = js ''facebook.com'', pathname = js ''/''\<rparr>"
    "misspellingFires (js ''facebook.com'')" "\<not> impersonationFires (js ''facebook.com'')"
    by code_simp+
  then show ?thesis
    by (simp add: analyzeUrl_fields classify_facebook classify_facebook_slash)
qed

text \<open>
  The claim as it is worded fails at its own example: the score of the scan of
  \<^verbatim>\<open>https://facebook.com\<close> is not 30.
\<close>

theorem C10_counterexample:
  "new_URL browser (js ''https://facebook.com'')
     = Some \<lparr>hostname = js ''facebook.com'', pathname = js ''/''\<rparr>
   \<and> score (analyzeUrl browser (js ''https://facebook.com'')) \<noteq> 30"
proof -
  have "new_URL browser (js ''https://facebook.com'')
     = Some \<lparr>hostname = js ''facebook.com'', pathname = js ''/''\<rparr>"
    by code_simp
  then show ?thesis by (simp add: analyzeUrl_fields classify_facebook)
qed

text \<open>
  What the detail flag \<^verbatim>\<open>typosquatting\<close> of a result follows: it is true if and only if
  the input parses and the brand-impersonation rule fires on its host.
\<close>

lemma typosquatting_flag_iff_impersonation:
  "typosquatting (details (analyzeUrl P u))
   \<longleftrightarrow> (case new_URL P u of
          None \<Rightarrow> False
        | Some urlObj \<Rightarrow> impersonationFires (toLowerCase P (hostname urlObj)))"
proof (cases "new_URL P u")
  case None
  then show ?thesis
    by (simp add: analyzeUrl_fields synthesize_def classify_def noThreats_def invalidUrl_def
        initial_def fixed_clean)
next
  case (Some urlObj)
  then have "typosquatting (details (analyzeUrl P u))
      \<longleftrightarrow> list_ex mentionsTyposquatting
            (threats (noThreats (clampScore (runRules (battery P u urlObj) initial))))"
    by (simp add: analyzeUrl_fields synthesize_def classify_def)
  also have "\<dots> \<longleftrightarrow> list_ex mentionsTyposquatting (threats (runRules (battery P u urlObj) initial))"
    by (simp add: noThreats_flag clampScore_def)
  also have "\<dots> \<longleftrightarrow> impersonationFires (toLowerCase P (hostname urlObj))"
    by (rule battery_flag)
  finally show ?thesis using Some by simp
qed

lemma typosquatting_flag_paypal:
  "typosquatting (details (analyzeUrl browser (js ''https://secure-paypal-login.tk/verify?confirm=1'')))
   \<and> impersonationFires (js ''secure-paypal-login.tk'')"
proof -
  have "toLowerCase browser (js ''secure-paypal-login.tk'') = js ''secure-paypal-login.tk''"
    by code_simp
  with typosquatting_flag_iff_impersonation
         [of browser "js ''https://secure-paypal-login.tk/verify?confirm=1''"]
  show ?thesis by (simp add: parse_paypal fires_paypal)
qed

text \<open>
  C6, on the input \<^verbatim>\<open>https://gooogle.com/login\<close>: the misspelling rule fires on the host
  \<^verbatim>\<open>gooogle.com\<close>, its finding is the only one, the level is dangerous, and the detail flag
  \<^verbatim>\<open>typosquatting\<close> is false. The flag is computed by a search for the words
  \<^verbatim>\<open>typosquatting\<close> and \<^verbatim>\<open>impersonation\<close> in the threat messages, and the message of the
  misspelling rule holds neither, so the scan does not raise the flag for a misspelled
  brand name.
\<close>

theorem C6_flag_false_for_misspelling:
  "new_URL browser (js ''https://gooogle.com/login'')
     = Some \<lparr>hostname = js ''gooogle.com'', pathname = js ''/login''\<rparr>
   \<and> misspellingFires (js ''gooogle.com'')
   \<and> threats (analyzeUrl browser (js ''https://gooogle.com/login''))
       = [misspellingThreat (js ''gooogle'') (js ''google'')]
   \<and> riskLevel (analyzeUrl browser (js ''https://gooogle.com/login'')) = Dangerous
   \<and> \<not> mentionsTyposquatting (misspellingThreat (js ''gooogle'') (js ''google''))
   \<and> \<not> typosquatting (details (analyzeUrl browser (js ''https://gooogle.com/login'')))"
proof -
  have "new_URL browser (js ''https://gooogle.com/login'')
     = Some \<lparr>hostname = js ''gooogle.com'', pathname = js ''/login''\<rparr>"
    "misspellingFires (js ''gooogle.com'')"
    "\<not> mentionsTyposquatting (misspellingThreat (js ''gooogle'') (js ''google''))"
    by code_simp+
  then show ?thesis
    by (simp add: analyzeUrl_fields classify_gooogle_login synthesize_def)
qed





end
